theory Spec2Isabelle
  imports Main
begin

section \<open>The access policy: firestore.rules\<close>

text \<open>
  The rules file is a program of the hosted database's rules language. It is embedded as
  data (a tree of match blocks, each with its allow statements) together with
  the language's evaluation of a request against such a tree. The file has no
  \<^verbatim>\<open>rules_version\<close> line, so it is read under version 1 of the language:
  \<^item> a match block applies to a document when its pattern, appended to the patterns of
    the blocks around it, matches the whole document path;
  \<^item> \<^verbatim>\<open>{name}\<close> matches one path segment, \<^verbatim>\<open>{name=**}\<close> matches the
    rest of the path (one segment or more) and stands last in its pattern;
  \<^item> \<^verbatim>\<open>read\<close> stands for the methods get and list, \<^verbatim>\<open>write\<close> for create,
    update and delete;
  \<^item> a request is allowed when some allow statement of some applying block names
    its method and has a true condition. Blocks are not ordered and none overrides
    another: where several blocks apply to a document, one granting allow statement is
    enough. A request that no statement grants is denied.
\<close>

datatype segment = Literal string | Wildcard string | RecursiveWildcard string

datatype access_method = Get | ListDocuments | Create | Update | Delete

datatype permission = Read | Write | AllowGet | AllowList | AllowCreate | AllowUpdate | AllowDelete

datatype condition = AuthUidNotNull | AuthUidEquals string

datatype allow_stmt = AllowIf "permission list" condition

datatype match_block = Match "segment list" "allow_stmt list" "match_block list"

datatype binding = SegmentValue string | PathValue "string list"

datatype decision = Allow | Deny

record request =
  auth_uid :: "string option"
  path :: "string list"
  req_method :: access_method

text \<open>Lines 3 to 5 of the file: the block for every document.\<close>

definition catch_all_block :: match_block where
  "catch_all_block =
     Match [RecursiveWildcard ''document'']
       [AllowIf [Read, Write] AuthUidNotNull]
       []"

text \<open>Lines 9 to 12 of the file: the block for the user documents.\<close>

definition users_block :: match_block where
  "users_block =
     Match [Literal ''users'', Wildcard ''userId'']
       [AllowIf [Read, AllowUpdate, AllowDelete] (AuthUidEquals ''userId''),
        AllowIf [AllowCreate] AuthUidNotNull]
       []"

text \<open>Line 2 of the file: the block around both, and with it the whole rule set.\<close>

definition firestore_rules :: match_block where
  "firestore_rules =
     Match [Literal ''databases'', Wildcard ''database'', Literal ''documents'']
       []
       [catch_all_block, users_block]"

text \<open>
  Matching a pattern against the front of a path gives the variables it binds and the
  rest of the path, or \<open>None\<close> when it does not match.
\<close>

fun match_segments ::
  "segment list \<Rightarrow> string list \<Rightarrow> ((string \<times> binding) list \<times> string list) option" where
  "match_segments [] p = Some ([], p)"
| "match_segments [RecursiveWildcard v] [] = None"
| "match_segments [RecursiveWildcard v] (x # xs) = Some ([(v, PathValue (x # xs))], [])"
| "match_segments (RecursiveWildcard v # s # ss) p = None"
| "match_segments (Literal l # ss) [] = None"
| "match_segments (Literal l # ss) (x # xs) =
     (if l = x then match_segments ss xs else None)"
| "match_segments (Wildcard v # ss) [] = None"
| "match_segments (Wildcard v # ss) (x # xs) =
     (case match_segments ss xs of
        None \<Rightarrow> None
      | Some (bs, rest) \<Rightarrow> Some ((v, SegmentValue x) # bs, rest))"

fun covers :: "permission \<Rightarrow> access_method \<Rightarrow> bool" where
  "covers Read m = (m = Get \<or> m = ListDocuments)"
| "covers Write m = (m = Create \<or> m = Update \<or> m = Delete)"
| "covers AllowGet m = (m = Get)"
| "covers AllowList m = (m = ListDocuments)"
| "covers AllowCreate m = (m = Create)"
| "covers AllowUpdate m = (m = Update)"
| "covers AllowDelete m = (m = Delete)"

text \<open>
  The two conditions of the file. \<^verbatim>\<open>request.auth\<close> is null for an unauthenticated
  request, and a condition that fails to evaluate grants nothing.
\<close>

fun eval_condition :: "request \<Rightarrow> (string \<times> binding) list \<Rightarrow> condition \<Rightarrow> bool" where
  "eval_condition r env AuthUidNotNull = (auth_uid r \<noteq> None)"
| "eval_condition r env (AuthUidEquals v) =
     (case auth_uid r of
        None \<Rightarrow> False
      | Some uid \<Rightarrow> map_of env v = Some (SegmentValue uid))"

fun stmt_grants :: "request \<Rightarrow> (string \<times> binding) list \<Rightarrow> allow_stmt \<Rightarrow> bool" where
  "stmt_grants r env (AllowIf ps c) =
     (list_ex (\<lambda>p. covers p (req_method r)) ps \<and> eval_condition r env c)"

fun block_grants :: "request \<Rightarrow> (string \<times> binding) list \<Rightarrow> match_block \<Rightarrow> string list \<Rightarrow> bool"
  and blocks_grant :: "request \<Rightarrow> (string \<times> binding) list \<Rightarrow> match_block list \<Rightarrow> string list \<Rightarrow> bool"
  where
  "block_grants r env (Match pat allows subs) p =
     (case match_segments pat p of
        None \<Rightarrow> False
      | Some (bs, rest) \<Rightarrow>
          (rest = [] \<and> list_ex (stmt_grants r (bs @ env)) allows)
          \<or> blocks_grant r (bs @ env) subs rest)"
| "blocks_grant r env [] p = False"
| "blocks_grant r env (b # bs) p = (block_grants r env b p \<or> blocks_grant r env bs p)"

definition evaluate :: "match_block \<Rightarrow> request \<Rightarrow> decision" where
  "evaluate rules r = (if block_grants r [] rules (path r) then Allow else Deny)"

section \<open>The query editor component: QueryEditor.vue\<close>

subsection \<open>The collaborators: the query language library and the editor widget\<close>

text \<open>
  The parser, validator, printer and suggestion engine are libraries the component
  calls; they are parameters of the model. Each call either returns or throws, so each
  has a result of type \<open>js_error + 'a\<close>. A location is the library's 1-based
  \<^verbatim>\<open>{line, column}\<close>.
\<close>

record source_location =
  line :: int
  column :: int

text \<open>
  What the component reads of a thrown value or of a validation error:
  \<^verbatim>\<open>locations\<close> (\<open>None\<close> where the property is undefined) and
  \<^verbatim>\<open>message\<close>.
\<close>

record js_error =
  err_name :: string
  locations :: "source_location list option"
  message :: string

record ('doc, 'schema) graphql =
  gql_parse :: "string \<Rightarrow> js_error + 'doc"
  gql_validate :: "'schema \<Rightarrow> 'doc \<Rightarrow> js_error + js_error list"
  gql_print :: "'doc \<Rightarrow> js_error + string"

text \<open>An annotation of the widget: \<^verbatim>\<open>{row, column, text, type}\<close>.\<close>

record annotation =
  ann_row :: int
  ann_column :: int
  ann_text :: string
  ann_type :: string

text \<open>A suggestion of the language service and a completion item of the widget.\<close>

record suggestion =
  label :: string
  detail :: "string option"

record position =
  pos_line :: int
  character :: int

record completion =
  comp_name :: string
  comp_value :: string
  comp_score :: int
  comp_meta :: "string option"

datatype event = Input string | UpdateQuery string

subsection \<open>The component's state\<close>

text \<open>
  The fields of \<^verbatim>\<open>data()\<close> that the methods below use, the widget's buffer
  (\<^verbatim>\<open>editor.getValue()\<close>) and annotations, the events emitted to the host, the
  notifications shown, and the timer of the debounced pass: the time left and the
  argument of the pending call, \<open>None\<close> when no call is pending. A null schema is
  \<open>None\<close>.
\<close>

record 'schema component =
  editor_value :: string
  editor_annotations :: "annotation list"
  cacheValue :: string
  validationSchema :: "'schema option"
  inDebounce :: "(nat \<times> string) option"
  emitted :: "event list"
  toasts :: "string list"

definition setAnnotations :: "annotation list \<Rightarrow> 'schema component \<Rightarrow> 'schema component" where
  "setAnnotations anns st = st\<lparr>editor_annotations := anns\<rparr>"

definition emit :: "event \<Rightarrow> 'schema component \<Rightarrow> 'schema component" where
  "emit ev st = st\<lparr>emitted := emitted st @ [ev]\<rparr>"

definition toast_error :: "string \<Rightarrow> 'schema component \<Rightarrow> 'schema component" where
  "toast_error key st = st\<lparr>toasts := toasts st @ [key]\<rparr>"

subsection \<open>The parse and validate pass\<close>

definition typeError :: "string \<Rightarrow> js_error" where
  "typeError m = \<lparr>err_name = ''TypeError'', locations = None, message = m\<rparr>"

text \<open>
  Lines 218 to 223 and 228 to 233: the object built from
  \<^verbatim>\<open>locations[0].line - 1\<close>, \<^verbatim>\<open>locations[0].column - 1\<close> and the message.
  Reading index 0 of an undefined \<^verbatim>\<open>locations\<close>, or \<^verbatim>\<open>line\<close> of the
  undefined first element of an empty array, throws a TypeError.
\<close>

definition toAnnotation :: "js_error \<Rightarrow> js_error + annotation" where
  "toAnnotation e =
     (case locations e of
        None \<Rightarrow> Inl (typeError ''Cannot read properties of undefined (reading 0)'')
      | Some [] \<Rightarrow> Inl (typeError ''Cannot read properties of undefined (reading line)'')
      | Some (l # ls) \<Rightarrow>
          Inr \<lparr>ann_row = line l - 1, ann_column = column l - 1,
               ann_text = message e, ann_type = ''error''\<rparr>)"

text \<open>Line 218: \<^verbatim>\<open>.map\<close> over the validation errors, left to right; a throw ends it.\<close>

fun mapAnnotations :: "js_error list \<Rightarrow> js_error + annotation list" where
  "mapAnnotations [] = Inr []"
| "mapAnnotations (e # es) =
     (case toAnnotation e of
        Inl x \<Rightarrow> Inl x
      | Inr a \<Rightarrow>
          (case mapAnnotations es of
             Inl x \<Rightarrow> Inl x
           | Inr as \<Rightarrow> Inr (a # as)))"

text \<open>Lines 212 to 225: the body of the \<^verbatim>\<open>try\<close>.\<close>

definition parseContents_try ::
  "('doc, 'schema) graphql \<Rightarrow> string \<Rightarrow> 'schema component \<Rightarrow> js_error + 'schema component" where
  "parseContents_try G content st =
     (case gql_parse G content of
        Inl e \<Rightarrow> Inl e
      | Inr doc \<Rightarrow>
          (case validationSchema st of
             None \<Rightarrow> Inr st
           | Some schema \<Rightarrow>
               (case gql_validate G schema doc of
                  Inl e \<Rightarrow> Inl e
                | Inr errs \<Rightarrow>
                    (case mapAnnotations errs of
                       Inl e \<Rightarrow> Inl e
                     | Inr anns \<Rightarrow> Inr (setAnnotations anns st)))))"

text \<open>Lines 226 to 235: the \<^verbatim>\<open>catch\<close> handler; what it throws leaves the pass.\<close>

definition parseContents_catch ::
  "js_error \<Rightarrow> 'schema component \<Rightarrow> js_error + 'schema component" where
  "parseContents_catch e st =
     (case toAnnotation e of
        Inl x \<Rightarrow> Inl x
      | Inr a \<Rightarrow> Inr (setAnnotations [a] st))"

text \<open>Lines 209 to 239: the function handed to \<^verbatim>\<open>debounce\<close>.\<close>

definition parseContents_body ::
  "('doc, 'schema) graphql \<Rightarrow> string \<Rightarrow> 'schema component \<Rightarrow> js_error + 'schema component" where
  "parseContents_body G content st =
     (if content \<noteq> '''' then
        (case parseContents_try G content st of
           Inl e \<Rightarrow> parseContents_catch e st
         | Inr st' \<Rightarrow> Inr st')
      else Inr (setAnnotations [] st))"

text \<open>
  Modelled from the spec: the helper \<^verbatim>\<open>~/helpers/utils/debounce\<close>, which is
  imported at line 16 and is not among the source files. The spec describes it as a
  trailing-edge debounce with a fixed delay: a call suspends the pass for the delay, a
  further call within that window resets the timer (it is not queued), so at most one
  pass is pending; when the timer fires the pass runs to completion. A call therefore
  replaces the pending call by itself, with the full delay.
\<close>

definition debounce_call :: "nat \<Rightarrow> string \<Rightarrow> 'schema component \<Rightarrow> 'schema component" where
  "debounce_call delay content st = st\<lparr>inDebounce := Some (delay, content)\<rparr>"

text \<open>Line 209 and line 239: \<^verbatim>\<open>parseContents\<close> is the pass debounced by 2000 ms.\<close>

definition parseContents :: "string \<Rightarrow> 'schema component \<Rightarrow> 'schema component" where
  "parseContents content st = debounce_call 2000 content st"

text \<open>
  Modelled from the spec: the timer of the same helper. \<open>dt\<close> milliseconds pass with
  no event of the component in between; a pending pass whose time is up runs on the
  argument of its call, and an exception it throws leaves the timer callback (\<open>Inl\<close>).
\<close>

definition elapse ::
  "('doc, 'schema) graphql \<Rightarrow> nat \<Rightarrow> 'schema component \<Rightarrow> js_error + 'schema component" where
  "elapse G dt st =
     (case inDebounce st of
        None \<Rightarrow> Inr st
      | Some (r, content) \<Rightarrow>
          if r \<le> dt then parseContents_body G content (st\<lparr>inDebounce := None\<rparr>)
          else Inr (st\<lparr>inDebounce := Some (r - dt, content)\<rparr>))"

subsection \<open>Mounting, edits and the host's inputs\<close>

text \<open>
  Lines 43 to 50 and 80 to 174, as far as the state above goes: the buffer takes the
  initial \<^verbatim>\<open>value\<close> when that is not the empty string, the cache takes it, and one
  pass is requested. The listener is attached after the buffer is filled, and the
  buffer is taken to hold the initial text as given, which it does for a text without
  line ends.
\<close>

definition mounted :: "string \<Rightarrow> 'schema component" where
  "mounted v =
     parseContents v
       \<lparr>editor_value = (if v \<noteq> '''' then v else ''''),
        editor_annotations = [],
        cacheValue = v,
        validationSchema = None,
        inDebounce = None,
        emitted = [],
        toasts = []\<rparr>"

text \<open>Lines 166 to 171: the listener of the widget's change event.\<close>

definition on_change :: "'schema component \<Rightarrow> 'schema component" where
  "on_change st =
     (let content = editor_value st;
          st1 = emit (Input content) st;
          st2 = parseContents content st1
      in st2\<lparr>cacheValue := content\<rparr>)"

text \<open>An edit by the user: the buffer changes and the widget calls the listener.\<close>

definition user_edit :: "string \<Rightarrow> 'schema component \<Rightarrow> 'schema component" where
  "user_edit t st = on_change (st\<lparr>editor_value := t\<rparr>)"



text \<open>Lines 204 to 207.\<close>

definition setValidationSchema :: "'schema option \<Rightarrow> 'schema component \<Rightarrow> 'schema component" where
  "setValidationSchema schema st =
     parseContents (cacheValue st) (st\<lparr>validationSchema := schema\<rparr>)"

subsection \<open>The reformat action and the completer\<close>

text \<open>
  Lines 181 to 189. Whatever \<^verbatim>\<open>gql.parse\<close> or \<^verbatim>\<open>gql.print\<close> throws is caught,
  and the handler shows the notification.
\<close>

definition prettifyQuery ::
  "('doc, 'schema) graphql \<Rightarrow> 'schema component \<Rightarrow> js_error + 'schema component" where
  "prettifyQuery G st =
     (case gql_parse G (editor_value st) of
        Inl e \<Rightarrow> Inr (toast_error ''error.gql_prettify_invalid_query'' st)
      | Inr doc \<Rightarrow>
          (case gql_print G doc of
             Inl e \<Rightarrow> Inr (toast_error ''error.gql_prettify_invalid_query'' st)
           | Inr s \<Rightarrow> Inr (emit (UpdateQuery s) st)))"

text \<open>
  Lines 108 to 139. The result is what the completer hands to the widget's callback;
  \<open>suggest\<close> is the language service's \<^verbatim>\<open>getAutocompleteSuggestions\<close>.
\<close>

definition getCompletions ::
  "('schema \<Rightarrow> string \<Rightarrow> position \<Rightarrow> js_error + suggestion list) \<Rightarrow>
   'schema component \<Rightarrow> int \<Rightarrow> int \<Rightarrow> js_error + completion list" where
  "getCompletions suggest st row col =
     (case validationSchema st of
        Some schema \<Rightarrow>
          (case suggest schema (editor_value st) \<lparr>pos_line = row, character = col\<rparr> of
             Inl e \<Rightarrow> Inl e
           | Inr completions \<Rightarrow>
               Inr (map (\<lambda>s. \<lparr>comp_name = label s, comp_value = label s,
                               comp_score = 1, comp_meta = detail s\<rparr>) completions))
      | None \<Rightarrow> Inr [])"

subsection \<open>Events that are no buffer change\<close>





subsection \<open>A small library instance for concrete runs\<close>

text \<open>
  A stand-in for the query language library on a few texts, used only where a
  statement below is evaluated at a concrete input. A document is the list of its
  field names. The second schema is one the validator rejects as a schema: the
  validator then throws a plain error, which has no \<^verbatim>\<open>locations\<close>.
\<close>

datatype sample_schema = SchemaWithMe | SchemaWithoutQueryRoot

definition graphQLError :: "int \<Rightarrow> int \<Rightarrow> string \<Rightarrow> js_error" where
  "graphQLError l c m =
     \<lparr>err_name = ''GraphQLError'', locations = Some [\<lparr>line = l, column = c\<rparr>], message = m\<rparr>"

definition sample_parse :: "string \<Rightarrow> js_error + string list" where
  "sample_parse t =
     (if t = ''{ me }'' then Inr [''me'']
      else if t = ''{me}'' then Inr [''me'']
      else if t = ''{ a b }'' then Inr [''a'', ''b'']
      else Inl (graphQLError 1 2 ''Syntax Error: Expected Name, found <EOF>.''))"

fun sample_validate :: "sample_schema \<Rightarrow> string list \<Rightarrow> js_error + js_error list" where
  "sample_validate SchemaWithoutQueryRoot doc =
     Inl \<lparr>err_name = ''Error'', locations = None,
          message = ''Query root type must be provided.''\<rparr>"
| "sample_validate SchemaWithMe doc =
     (if doc = [''a'', ''b'']
      then Inr [graphQLError 1 3 ''Cannot query field a on type Query.'',
                graphQLError 1 5 ''Cannot query field b on type Query.'']
      else Inr [])"

definition sample_print :: "string list \<Rightarrow> js_error + string" where
  "sample_print doc = Inr (''{ '' @ concat (map (\<lambda>f. f @ '' '') doc) @ ''}'')"

definition sample_gql :: "(string list, sample_schema) graphql" where
  "sample_gql =
     \<lparr>gql_parse = sample_parse, gql_validate = sample_validate, gql_print = sample_print\<rparr>"




section \<open>The access policy: properties\<close>

lemma users_block_alone_denies:
  "block_grants \<lparr>auth_uid = Some ''u1'', path = p, req_method = Update\<rparr> env users_block
     [''users'', ''u2''] = False"
  by (simp add: users_block_def)

lemma catch_all_block_grants:
  "block_grants \<lparr>auth_uid = Some ''u1'', path = p, req_method = Update\<rparr> env catch_all_block
     [''users'', ''u2''] = True"
  by (simp add: catch_all_block_def)

text \<open>
  C1. The claim: a request of the authenticated subject \<open>u1\<close> to update the document
  \<open>/users/u2\<close> is denied. On the rule set as written it is allowed, in every
  database: the block for user documents grants nothing to it, but the block for
  every document applies to \<open>/users/u2\<close> as well and grants write, hence update, to
  any authenticated subject. The file's comment on the block for user documents asks
  for the uid of the requesting user to match the name of the user document.
\<close>

theorem update_of_other_user_document_is_allowed:
  "evaluate firestore_rules
     \<lparr>auth_uid = Some ''u1'',
      path = [''databases'', db, ''documents'', ''users'', ''u2''],
      req_method = Update\<rparr> = Allow"
  by (simp add: evaluate_def firestore_rules_def catch_all_block_def users_block_def)

section \<open>The query editor component: properties\<close>

subsection \<open>Helper facts\<close>

lemma user_edit_state:
  "user_edit t st =
     st\<lparr>editor_value := t, cacheValue := t, inDebounce := Some (2000, t),
        emitted := emitted st @ [Input t]\<rparr>"
  by (simp add: user_edit_def on_change_def Let_def emit_def parseContents_def debounce_call_def)

lemma mounted_state:
  "mounted v =
     \<lparr>editor_value = v, editor_annotations = [], cacheValue = v, validationSchema = None,
      inDebounce = Some (2000, v), emitted = [], toasts = []\<rparr>"
  by (simp add: mounted_def parseContents_def debounce_call_def)

lemma elapse_fires:
  "inDebounce st = Some (r, content) \<Longrightarrow> r \<le> dt \<Longrightarrow>
   elapse G dt st = parseContents_body G content (st\<lparr>inDebounce := None\<rparr>)"
  by (simp add: elapse_def)

lemma parseContents_body_valid_without_schema:
  "content \<noteq> '''' \<Longrightarrow> gql_parse G content = Inr doc \<Longrightarrow> validationSchema st = None \<Longrightarrow>
   parseContents_body G content st = Inr st"
  by (simp add: parseContents_body_def parseContents_try_def)

lemma mapAnnotations_located:
  "\<forall>e \<in> set errs. \<exists>l ls. locations e = Some (l # ls) \<Longrightarrow>
   \<exists>anns. mapAnnotations errs = Inr anns \<and>
     list_all2 (\<lambda>e a. \<exists>l ls. locations e = Some (l # ls) \<and>
        a = \<lparr>ann_row = line l - 1, ann_column = column l - 1,
             ann_text = message e, ann_type = ''error''\<rparr>) errs anns"
proof (induction errs)
  case Nil
  show ?case by simp
next
  case (Cons e es)
  from Cons.prems obtain l ls where loc: "locations e = Some (l # ls)"
    by auto
  from Cons.prems have "\<forall>e \<in> set es. \<exists>l ls. locations e = Some (l # ls)"
    by simp
  with Cons.IH obtain anns where
    rest: "mapAnnotations es = Inr anns" and
    rel: "list_all2 (\<lambda>e a. \<exists>l ls. locations e = Some (l # ls) \<and>
        a = \<lparr>ann_row = line l - 1, ann_column = column l - 1,
             ann_text = message e, ann_type = ''error''\<rparr>) es anns"
    by blast
  from loc rest rel show ?case
    by (simp add: toAnnotation_def)
qed

lemma unlocated_exception_leaves_pass:
  "content \<noteq> '''' \<Longrightarrow> gql_parse G content = Inr doc \<Longrightarrow>
   validationSchema st = Some schema \<Longrightarrow>
   gql_validate G schema doc = Inl e \<Longrightarrow> locations e = None \<Longrightarrow>
   parseContents_body G content st =
     Inl (typeError ''Cannot read properties of undefined (reading 0)'')"
  by (simp add: parseContents_body_def parseContents_try_def parseContents_catch_def
      toAnnotation_def)

subsection \<open>The parse and validate pass: claims\<close>

text \<open>
  C2. The claim: for non-empty text that parses, with no schema installed, the
  displayed diagnostics are empty once the debounce window has elapsed, whatever was
  displayed before. The pass does not touch the annotations on that path (the call of
  \<^verbatim>\<open>setAnnotations\<close> stands under \<^verbatim>\<open>if (this.validationSchema)\<close>): the user
  types \<open>{\<close>, the syntax error is displayed, the user completes the text to \<open>{ me }\<close>,
  and the syntax error is still displayed after the next pass.
\<close>

theorem stale_diagnostic_survives_valid_text_without_schema:
  "elapse sample_gql 2000 (user_edit ''{'' (mounted '''')) =
     Inr \<lparr>editor_value = ''{'',
          editor_annotations =
            [\<lparr>ann_row = 0, ann_column = 1,
              ann_text = ''Syntax Error: Expected Name, found <EOF>.'', ann_type = ''error''\<rparr>],
          cacheValue = ''{'', validationSchema = None, inDebounce = None,
          emitted = [Input ''{''], toasts = []\<rparr>
   \<and> gql_parse sample_gql ''{ me }'' = Inr [''me'']
   \<and> elapse sample_gql 2000
       (user_edit ''{ me }''
         \<lparr>editor_value = ''{'',
          editor_annotations =
            [\<lparr>ann_row = 0, ann_column = 1,
              ann_text = ''Syntax Error: Expected Name, found <EOF>.'', ann_type = ''error''\<rparr>],
          cacheValue = ''{'', validationSchema = None, inDebounce = None,
          emitted = [Input ''{''], toasts = []\<rparr>) =
     Inr \<lparr>editor_value = ''{ me }'',
          editor_annotations =
            [\<lparr>ann_row = 0, ann_column = 1,
              ann_text = ''Syntax Error: Expected Name, found <EOF>.'', ann_type = ''error''\<rparr>],
          cacheValue = ''{ me }'', validationSchema = None, inDebounce = None,
          emitted = [Input ''{'', Input ''{ me }''], toasts = []\<rparr>"
  by (simp add: user_edit_state mounted_state elapse_def parseContents_body_def
      parseContents_try_def parseContents_catch_def toAnnotation_def setAnnotations_def
      sample_gql_def sample_parse_def graphQLError_def)

text \<open>
  C4. When the time of a pending pass is up and its text is not empty and does not
  parse, the pass returns and the displayed diagnostics are exactly one annotation:
  row and column are the line and column of the parse error's first location, each
  less 1, the text is the error's message and the type is error. What was displayed
  before is replaced.
\<close>

theorem parse_error_gives_single_diagnostic:
  assumes "inDebounce st = Some (r, content)" and "r \<le> dt"
    and "content \<noteq> ''''"
    and "gql_parse G content = Inl e"
    and "locations e = Some (l # ls)"
  shows "elapse G dt st =
     Inr (st\<lparr>inDebounce := None,
             editor_annotations :=
               [\<lparr>ann_row = line l - 1, ann_column = column l - 1,
                 ann_text = message e, ann_type = ''error''\<rparr>]\<rparr>)"
  using assms
  by (simp add: elapse_def parseContents_body_def parseContents_try_def
      parseContents_catch_def toAnnotation_def setAnnotations_def)

theorem parse_error_gives_single_diagnostic_witness:
  "inDebounce (user_edit ''{'' (mounted '''' :: sample_schema component)) = Some (2000, ''{'')
   \<and> gql_parse sample_gql ''{'' =
       Inl (graphQLError 1 2 ''Syntax Error: Expected Name, found <EOF>.'')
   \<and> elapse sample_gql 2500 (user_edit ''{'' (mounted '''')) =
       Inr ((user_edit ''{'' (mounted ''''))\<lparr>inDebounce := None,
             editor_annotations :=
               [\<lparr>ann_row = 0, ann_column = 1,
                 ann_text = ''Syntax Error: Expected Name, found <EOF>.'',
                 ann_type = ''error''\<rparr>]\<rparr>)"
proof -
  let ?st = "user_edit ''{'' (mounted '''' :: sample_schema component)"
  let ?e = "graphQLError 1 2 ''Syntax Error: Expected Name, found <EOF>.''"
  have pending: "inDebounce ?st = Some (2000, ''{'')"
    by (simp add: user_edit_state)
  have fails: "gql_parse sample_gql ''{'' = Inl ?e"
    by (simp add: sample_gql_def sample_parse_def)
  have loc: "locations ?e = Some (\<lparr>line = 1, column = 2\<rparr> # [])"
    by (simp add: graphQLError_def)
  have "elapse sample_gql 2500 ?st =
     Inr (?st\<lparr>inDebounce := None,
             editor_annotations :=
               [\<lparr>ann_row = line \<lparr>line = 1, column = 2\<rparr> - 1,
                 ann_column = column \<lparr>line = 1, column = 2\<rparr> - 1,
                 ann_text = message ?e, ann_type = ''error''\<rparr>]\<rparr>)"
    by (rule parse_error_gives_single_diagnostic [OF pending _ _ fails loc]) simp_all
  then have "elapse sample_gql 2500 ?st =
     Inr (?st\<lparr>inDebounce := None,
             editor_annotations :=
               [\<lparr>ann_row = 0, ann_column = 1,
                 ann_text = ''Syntax Error: Expected Name, found <EOF>.'',
                 ann_type = ''error''\<rparr>]\<rparr>)"
    by (simp add: graphQLError_def)
  with pending fails show ?thesis by simp
qed

text \<open>
  C5. When the time of a pending pass is up, its text is not empty and parses, a schema
  is installed, and the validator returns a list of errors each of which has a first
  location, the pass returns and the displayed diagnostics are, in the validator's
  order, one annotation for each error: row and column are the line and column of the
  error's first location, each less 1, the text is the error's message and the type
  is error. What was displayed before is replaced.
\<close>

theorem validation_errors_give_one_diagnostic_each:
  assumes "inDebounce st = Some (r, content)" and "r \<le> dt"
    and "content \<noteq> ''''"
    and "gql_parse G content = Inr doc"
    and "validationSchema st = Some schema"
    and "gql_validate G schema doc = Inr errs"
    and "\<forall>e \<in> set errs. \<exists>l ls. locations e = Some (l # ls)"
  shows "\<exists>anns.
     elapse G dt st = Inr (st\<lparr>inDebounce := None, editor_annotations := anns\<rparr>)
     \<and> length anns = length errs
     \<and> list_all2 (\<lambda>e a. \<exists>l ls. locations e = Some (l # ls) \<and>
          a = \<lparr>ann_row = line l - 1, ann_column = column l - 1,
               ann_text = message e, ann_type = ''error''\<rparr>) errs anns"
proof -
  from mapAnnotations_located [OF assms(7)] obtain anns where
    m: "mapAnnotations errs = Inr anns" and
    rel: "list_all2 (\<lambda>e a. \<exists>l ls. locations e = Some (l # ls) \<and>
          a = \<lparr>ann_row = line l - 1, ann_column = column l - 1,
               ann_text = message e, ann_type = ''error''\<rparr>) errs anns"
    by blast
  from assms(1-6) m have
    "elapse G dt st = Inr (st\<lparr>inDebounce := None, editor_annotations := anns\<rparr>)"
    by (simp add: elapse_def parseContents_body_def parseContents_try_def setAnnotations_def)
  moreover from rel have "length anns = length errs"
    by (simp add: list_all2_lengthD)
  ultimately show ?thesis using rel by blast
qed

theorem validation_errors_give_one_diagnostic_each_witness:
  "inDebounce (setValidationSchema (Some SchemaWithMe) (mounted ''{ a b }'')) =
     Some (2000, ''{ a b }'')
   \<and> gql_parse sample_gql ''{ a b }'' = Inr [''a'', ''b'']
   \<and> validationSchema (setValidationSchema (Some SchemaWithMe) (mounted ''{ a b }'')) =
       Some SchemaWithMe
   \<and> gql_validate sample_gql SchemaWithMe [''a'', ''b''] =
       Inr [graphQLError 1 3 ''Cannot query field a on type Query.'',
            graphQLError 1 5 ''Cannot query field b on type Query.'']
   \<and> elapse sample_gql 2000 (setValidationSchema (Some SchemaWithMe) (mounted ''{ a b }'')) =
       Inr ((setValidationSchema (Some SchemaWithMe) (mounted ''{ a b }''))
             \<lparr>inDebounce := None,
              editor_annotations :=
                [\<lparr>ann_row = 0, ann_column = 2,
                  ann_text = ''Cannot query field a on type Query.'', ann_type = ''error''\<rparr>,
                 \<lparr>ann_row = 0, ann_column = 4,
                  ann_text = ''Cannot query field b on type Query.'', ann_type = ''error''\<rparr>]\<rparr>)"
proof -
  let ?st = "setValidationSchema (Some SchemaWithMe) (mounted ''{ a b }'')"
  let ?e1 = "graphQLError 1 3 ''Cannot query field a on type Query.''"
  let ?e2 = "graphQLError 1 5 ''Cannot query field b on type Query.''"
  have pending: "inDebounce ?st = Some (2000, ''{ a b }'')"
    by (simp add: setValidationSchema_def parseContents_def debounce_call_def mounted_state)
  have le: "(2000::nat) \<le> 2000" and nonempty: "''{ a b }'' \<noteq> ''''"
    by simp_all
  have parses: "gql_parse sample_gql ''{ a b }'' = Inr [''a'', ''b'']"
    by (simp add: sample_gql_def sample_parse_def)
  have schema: "validationSchema ?st = Some SchemaWithMe"
    by (simp add: setValidationSchema_def parseContents_def debounce_call_def)
  have errs: "gql_validate sample_gql SchemaWithMe [''a'', ''b''] = Inr [?e1, ?e2]"
    by (simp add: sample_gql_def)
  have located: "\<forall>e \<in> set [?e1, ?e2]. \<exists>l ls. locations e = Some (l # ls)"
    by (simp add: graphQLError_def)
  from validation_errors_give_one_diagnostic_each
    [OF pending le nonempty parses schema errs located]
  obtain anns where
    run: "elapse sample_gql 2000 ?st =
            Inr (?st\<lparr>inDebounce := None, editor_annotations := anns\<rparr>)" and
    rel: "list_all2 (\<lambda>e a. \<exists>l ls. locations e = Some (l # ls) \<and>
          a = \<lparr>ann_row = line l - 1, ann_column = column l - 1,
               ann_text = message e, ann_type = ''error''\<rparr>) [?e1, ?e2] anns"
    by blast
  from rel have "anns =
     [\<lparr>ann_row = 0, ann_column = 2,
       ann_text = ''Cannot query field a on type Query.'', ann_type = ''error''\<rparr>,
      \<lparr>ann_row = 0, ann_column = 4,
       ann_text = ''Cannot query field b on type Query.'', ann_type = ''error''\<rparr>]"
    by (auto simp add: list_all2_Cons1 graphQLError_def)
  with run pending parses schema errs show ?thesis
    by simp
qed

text \<open>
  C8. The claim: whatever is thrown during the pass, the pass recovers and nothing
  reaches the host. The handler reads \<^verbatim>\<open>e.locations[0]\<close> of whatever was caught, so
  for a thrown value without \<^verbatim>\<open>locations\<close> the handler itself throws, outside any
  \<^verbatim>\<open>try\<close>. Here the text parses and the validator rejects the installed schema
  with a plain error: the pass ends with a TypeError and displays nothing.
\<close>

theorem validator_exception_leaves_the_pass:
  "elapse sample_gql 2000
     (setValidationSchema (Some SchemaWithoutQueryRoot) (mounted ''{ me }'')) =
   Inl (typeError ''Cannot read properties of undefined (reading 0)'')"
  by (simp add: setValidationSchema_def parseContents_def debounce_call_def mounted_state
      elapse_def parseContents_body_def parseContents_try_def parseContents_catch_def
      toAnnotation_def sample_gql_def sample_parse_def)

subsection \<open>Installing a schema\<close>

text \<open>
  C3, as the claim states it: right after \<^verbatim>\<open>setValidationSchema\<close> the displayed
  diagnostics are those of the buffer validated against the new schema. At the buffer
  \<open>{ a b }\<close> the validation has two errors to display, and right after the call, and
  still 1999 ms later, none is displayed.
\<close>

theorem setValidationSchema_immediate_counterexample:
  "parseContents_body sample_gql ''{ a b }''
     ((mounted ''{ a b }'')\<lparr>validationSchema := Some SchemaWithMe\<rparr>) =
     Inr ((mounted ''{ a b }'')
           \<lparr>validationSchema := Some SchemaWithMe,
            editor_annotations :=
              [\<lparr>ann_row = 0, ann_column = 2,
                ann_text = ''Cannot query field a on type Query.'', ann_type = ''error''\<rparr>,
               \<lparr>ann_row = 0, ann_column = 4,
                ann_text = ''Cannot query field b on type Query.'', ann_type = ''error''\<rparr>]\<rparr>)
   \<and> editor_annotations (setValidationSchema (Some SchemaWithMe) (mounted ''{ a b }'')) = []
   \<and> elapse sample_gql 1999 (setValidationSchema (Some SchemaWithMe) (mounted ''{ a b }'')) =
       Inr \<lparr>editor_value = ''{ a b }'', editor_annotations = [], cacheValue = ''{ a b }'',
            validationSchema = Some SchemaWithMe, inDebounce = Some (1, ''{ a b }''),
            emitted = [], toasts = []\<rparr>"
  by (simp add: setValidationSchema_def parseContents_def debounce_call_def mounted_state
      elapse_def parseContents_body_def parseContents_try_def toAnnotation_def
      setAnnotations_def sample_gql_def sample_parse_def graphQLError_def)

text \<open>
  C3, amended. \<^verbatim>\<open>setValidationSchema\<close> installs the schema and requests the
  debounced pass on the cached text, replacing any pending request; the call itself,
  and any time shorter than 2000 ms after it, leave the displayed diagnostics as they
  were. Once 2000 ms have passed with no further request, if the schema is not null,
  the cached text is not empty and parses, and the validator returns errors that each
  have a first location, the displayed diagnostics are replaced by one annotation for
  each validation error of the cached text against the new schema, in the validator's
  order: row and column are the line and column of the error's first location, each
  less 1, and the text is the error's message.
\<close>

theorem setValidationSchema_revalidates_after_debounce:
  "setValidationSchema schema st =
     st\<lparr>validationSchema := schema, inDebounce := Some (2000, cacheValue st)\<rparr>
   \<and> editor_annotations (setValidationSchema schema st) = editor_annotations st
   \<and> (dt < 2000 \<longrightarrow>
        elapse G dt (setValidationSchema schema st) =
          Inr (st\<lparr>validationSchema := schema,
                  inDebounce := Some (2000 - dt, cacheValue st)\<rparr>))
   \<and> (2000 \<le> dt \<and> schema = Some sch \<and> cacheValue st \<noteq> ''''
        \<and> gql_parse G (cacheValue st) = Inr doc
        \<and> gql_validate G sch doc = Inr errs
        \<and> (\<forall>e \<in> set errs. \<exists>l ls. locations e = Some (l # ls)) \<longrightarrow>
        (\<exists>anns.
           elapse G dt (setValidationSchema schema st) =
             Inr (st\<lparr>validationSchema := schema, inDebounce := None,
                     editor_annotations := anns\<rparr>)
           \<and> length anns = length errs
           \<and> list_all2 (\<lambda>e a. \<exists>l ls. locations e = Some (l # ls) \<and>
                a = \<lparr>ann_row = line l - 1, ann_column = column l - 1,
                     ann_text = message e, ann_type = ''error''\<rparr>) errs anns))"
proof (intro conjI impI)
  show "setValidationSchema schema st =
     st\<lparr>validationSchema := schema, inDebounce := Some (2000, cacheValue st)\<rparr>"
    by (simp add: setValidationSchema_def parseContents_def debounce_call_def)
next
  show "editor_annotations (setValidationSchema schema st) = editor_annotations st"
    by (simp add: setValidationSchema_def parseContents_def debounce_call_def)
next
  assume "dt < 2000"
  then show "elapse G dt (setValidationSchema schema st) =
     Inr (st\<lparr>validationSchema := schema, inDebounce := Some (2000 - dt, cacheValue st)\<rparr>)"
    by (simp add: setValidationSchema_def parseContents_def debounce_call_def elapse_def)
next
  assume h: "2000 \<le> dt \<and> schema = Some sch \<and> cacheValue st \<noteq> ''''
        \<and> gql_parse G (cacheValue st) = Inr doc
        \<and> gql_validate G sch doc = Inr errs
        \<and> (\<forall>e \<in> set errs. \<exists>l ls. locations e = Some (l # ls))"
  then have located: "\<forall>e \<in> set errs. \<exists>l ls. locations e = Some (l # ls)"
    by simp
  from mapAnnotations_located [OF located] obtain anns where
    m: "mapAnnotations errs = Inr anns" and
    rel: "list_all2 (\<lambda>e a. \<exists>l ls. locations e = Some (l # ls) \<and>
          a = \<lparr>ann_row = line l - 1, ann_column = column l - 1,
               ann_text = message e, ann_type = ''error''\<rparr>) errs anns"
    by blast
  from h m have run: "elapse G dt (setValidationSchema schema st) =
     Inr (st\<lparr>validationSchema := schema, inDebounce := None, editor_annotations := anns\<rparr>)"
    by (simp add: setValidationSchema_def parseContents_def debounce_call_def elapse_def
        parseContents_body_def parseContents_try_def setAnnotations_def)
  from rel have "length anns = length errs"
    by (simp add: list_all2_lengthD)
  with run rel show "\<exists>anns.
     elapse G dt (setValidationSchema schema st) =
       Inr (st\<lparr>validationSchema := schema, inDebounce := None, editor_annotations := anns\<rparr>)
     \<and> length anns = length errs
     \<and> list_all2 (\<lambda>e a. \<exists>l ls. locations e = Some (l # ls) \<and>
          a = \<lparr>ann_row = line l - 1, ann_column = column l - 1,
               ann_text = message e, ann_type = ''error''\<rparr>) errs anns"
    by blast
qed

theorem setValidationSchema_revalidates_after_debounce_witness:
  "cacheValue (mounted ''{ a b }'' :: sample_schema component) = ''{ a b }''
   \<and> gql_parse sample_gql ''{ a b }'' = Inr [''a'', ''b'']
   \<and> gql_validate sample_gql SchemaWithMe [''a'', ''b''] =
       Inr [graphQLError 1 3 ''Cannot query field a on type Query.'',
            graphQLError 1 5 ''Cannot query field b on type Query.'']
   \<and> setValidationSchema (Some SchemaWithMe) (mounted ''{ a b }'') =
       \<lparr>editor_value = ''{ a b }'', editor_annotations = [], cacheValue = ''{ a b }'',
        validationSchema = Some SchemaWithMe, inDebounce = Some (2000, ''{ a b }''),
        emitted = [], toasts = []\<rparr>
   \<and> elapse sample_gql 1500 (setValidationSchema (Some SchemaWithMe) (mounted ''{ a b }'')) =
       Inr \<lparr>editor_value = ''{ a b }'', editor_annotations = [], cacheValue = ''{ a b }'',
            validationSchema = Some SchemaWithMe, inDebounce = Some (500, ''{ a b }''),
            emitted = [], toasts = []\<rparr>
   \<and> elapse sample_gql 2000 (setValidationSchema (Some SchemaWithMe) (mounted ''{ a b }'')) =
       Inr \<lparr>editor_value = ''{ a b }'',
            editor_annotations =
              [\<lparr>ann_row = 0, ann_column = 2,
                ann_text = ''Cannot query field a on type Query.'', ann_type = ''error''\<rparr>,
               \<lparr>ann_row = 0, ann_column = 4,
                ann_text = ''Cannot query field b on type Query.'', ann_type = ''error''\<rparr>],
            cacheValue = ''{ a b }'', validationSchema = Some SchemaWithMe,
            inDebounce = None, emitted = [], toasts = []\<rparr>"
proof -
  let ?st = "mounted ''{ a b }'' :: sample_schema component"
  let ?e1 = "graphQLError 1 3 ''Cannot query field a on type Query.''"
  let ?e2 = "graphQLError 1 5 ''Cannot query field b on type Query.''"
  let ?R = "\<lambda>e a. \<exists>l ls. locations e = Some (l # ls) \<and>
          a = \<lparr>ann_row = line l - 1, ann_column = column l - 1,
               ann_text = message e, ann_type = ''error''\<rparr>"
  have cached: "cacheValue ?st = ''{ a b }''"
    by (simp add: mounted_state)
  have parses: "gql_parse sample_gql ''{ a b }'' = Inr [''a'', ''b'']"
    by (simp add: sample_gql_def sample_parse_def)
  have errs: "gql_validate sample_gql SchemaWithMe [''a'', ''b''] = Inr [?e1, ?e2]"
    by (simp add: sample_gql_def)
  have located: "\<forall>e \<in> set [?e1, ?e2]. \<exists>l ls. locations e = Some (l # ls)"
    by (simp add: graphQLError_def)
  note inst = setValidationSchema_revalidates_after_debounce
    [of "Some SchemaWithMe" ?st _ sample_gql SchemaWithMe "[''a'', ''b'']" "[?e1, ?e2]"]
  from inst [of 0] have installed:
    "setValidationSchema (Some SchemaWithMe) ?st =
       ?st\<lparr>validationSchema := Some SchemaWithMe, inDebounce := Some (2000, cacheValue ?st)\<rparr>"
    by blast
  have lt: "(1500::nat) < 2000"
    by simp
  from inst [of 1500] lt have early:
    "elapse sample_gql 1500 (setValidationSchema (Some SchemaWithMe) ?st) =
       Inr (?st\<lparr>validationSchema := Some SchemaWithMe,
                inDebounce := Some (2000 - 1500, cacheValue ?st)\<rparr>)"
    by blast
  from inst [of 2000] cached parses errs located obtain anns where
    run: "elapse sample_gql 2000 (setValidationSchema (Some SchemaWithMe) ?st) =
            Inr (?st\<lparr>validationSchema := Some SchemaWithMe, inDebounce := None,
                     editor_annotations := anns\<rparr>)" and
    rel: "list_all2 ?R [?e1, ?e2] anns"
    by auto
  from rel have "anns =
     [\<lparr>ann_row = 0, ann_column = 2,
       ann_text = ''Cannot query field a on type Query.'', ann_type = ''error''\<rparr>,
      \<lparr>ann_row = 0, ann_column = 4,
       ann_text = ''Cannot query field b on type Query.'', ann_type = ''error''\<rparr>]"
    by (auto simp add: list_all2_Cons1 graphQLError_def)
  with run installed early cached parses errs show ?thesis
    by (simp add: mounted_state)
qed

subsection \<open>The reformat action\<close>

text \<open>
  C6. When the buffer does not parse, or parses to a document that the printer fails
  on, the reformat action returns without an exception; the state afterwards is the
  state before with one notification added, so no event is emitted and the buffer and
  the displayed diagnostics are unchanged.
\<close>

theorem prettifyQuery_failure_only_notifies:
  assumes "gql_parse G (editor_value st) = Inl e
     \<or> (\<exists>doc. gql_parse G (editor_value st) = Inr doc \<and> gql_print G doc = Inl e)"
  shows "\<exists>st'. prettifyQuery G st = Inr st'
     \<and> st' = st\<lparr>toasts := toasts st @ [''error.gql_prettify_invalid_query'']\<rparr>
     \<and> emitted st' = emitted st
     \<and> editor_value st' = editor_value st
     \<and> editor_annotations st' = editor_annotations st"
  using assms
  by (auto simp add: prettifyQuery_def toast_error_def)

theorem prettifyQuery_failure_only_notifies_witness:
  "gql_parse sample_gql (editor_value (mounted ''{'' :: sample_schema component)) =
     Inl (graphQLError 1 2 ''Syntax Error: Expected Name, found <EOF>.'')
   \<and> prettifyQuery sample_gql (mounted ''{'') =
       Inr \<lparr>editor_value = ''{'', editor_annotations = [], cacheValue = ''{'',
            validationSchema = None, inDebounce = Some (2000, ''{''),
            emitted = [], toasts = [''error.gql_prettify_invalid_query'']\<rparr>
   \<and> gql_parse (sample_gql\<lparr>gql_print := \<lambda>doc. Inl (typeError ''print'')\<rparr>)
         (editor_value (mounted ''{ me }'' :: sample_schema component)) = Inr [''me'']
   \<and> prettifyQuery (sample_gql\<lparr>gql_print := \<lambda>doc. Inl (typeError ''print'')\<rparr>)
         (mounted ''{ me }'') =
       Inr \<lparr>editor_value = ''{ me }'', editor_annotations = [], cacheValue = ''{ me }'',
            validationSchema = None, inDebounce = Some (2000, ''{ me }''),
            emitted = [], toasts = [''error.gql_prettify_invalid_query'']\<rparr>"
proof -
  let ?G = "sample_gql\<lparr>gql_print := \<lambda>doc. Inl (typeError ''print'')\<rparr>"
  let ?st2 = "mounted ''{ me }'' :: sample_schema component"
  have parses: "gql_parse ?G (editor_value ?st2) = Inr [''me'']"
    by (simp add: mounted_state sample_gql_def sample_parse_def)
  have "gql_print ?G [''me''] = Inl (typeError ''print'')"
    by simp
  with parses have "gql_parse ?G (editor_value ?st2) = Inl (typeError ''print'')
     \<or> (\<exists>doc. gql_parse ?G (editor_value ?st2) = Inr doc
           \<and> gql_print ?G doc = Inl (typeError ''print''))"
    by blast
  from prettifyQuery_failure_only_notifies [OF this]
  have second: "prettifyQuery ?G ?st2 =
     Inr (?st2\<lparr>toasts := toasts ?st2 @ [''error.gql_prettify_invalid_query'']\<rparr>)"
    by blast
  let ?st = "mounted ''{'' :: sample_schema component"
  let ?e = "graphQLError 1 2 ''Syntax Error: Expected Name, found <EOF>.''"
  have fails: "gql_parse sample_gql (editor_value ?st) = Inl ?e"
    by (simp add: mounted_state sample_gql_def sample_parse_def)
  then have "gql_parse sample_gql (editor_value ?st) = Inl ?e
     \<or> (\<exists>doc. gql_parse sample_gql (editor_value ?st) = Inr doc
           \<and> gql_print sample_gql doc = Inl ?e)"
    by (rule disjI1)
  from prettifyQuery_failure_only_notifies [OF this]
  have "prettifyQuery sample_gql ?st =
     Inr (?st\<lparr>toasts := toasts ?st @ [''error.gql_prettify_invalid_query'']\<rparr>)"
    by blast
  with fails parses second show ?thesis
    by (simp add: mounted_state)
qed

text \<open>
  C9. When the buffer text \<open>t\<close> parses and the printer gives \<open>t\<close> back for the parsed
  document, the reformat action emits \<^verbatim>\<open>update-query\<close> with \<open>t\<close> and changes
  nothing else.
\<close>

theorem prettifyQuery_canonical_text_unchanged:
  assumes "editor_value st = t"
    and "gql_parse G t = Inr doc"
    and "gql_print G doc = Inr t"
  shows "prettifyQuery G st = Inr (st\<lparr>emitted := emitted st @ [UpdateQuery t]\<rparr>)"
  using assms
  by (simp add: prettifyQuery_def emit_def)

theorem prettifyQuery_canonical_text_unchanged_witness:
  "editor_value (mounted ''{ me }'' :: sample_schema component) = ''{ me }''
   \<and> gql_parse sample_gql ''{ me }'' = Inr [''me'']
   \<and> gql_print sample_gql [''me''] = Inr ''{ me }''
   \<and> prettifyQuery sample_gql (mounted ''{ me }'') =
       Inr \<lparr>editor_value = ''{ me }'', editor_annotations = [], cacheValue = ''{ me }'',
            validationSchema = None, inDebounce = Some (2000, ''{ me }''),
            emitted = [UpdateQuery ''{ me }''], toasts = []\<rparr>"
proof -
  let ?st = "mounted ''{ me }'' :: sample_schema component"
  have buffer: "editor_value ?st = ''{ me }''"
    by (simp add: mounted_state)
  have parses: "gql_parse sample_gql ''{ me }'' = Inr [''me'']"
    by (simp add: sample_gql_def sample_parse_def)
  have prints: "gql_print sample_gql [''me''] = Inr ''{ me }''"
    by (simp add: sample_gql_def sample_print_def)
  from prettifyQuery_canonical_text_unchanged [OF buffer parses prints]
  have "prettifyQuery sample_gql ?st =
     Inr (?st\<lparr>emitted := emitted ?st @ [UpdateQuery ''{ me }'']\<rparr>)" .
  with buffer parses prints show ?thesis
    by (simp add: mounted_state)
qed

subsection \<open>The host's value input\<close>

lemma user_edit_emits_and_caches:
  "cacheValue (user_edit s st) = s \<and> emitted (user_edit s st) = emitted st @ [Input s]"
  by (simp add: user_edit_state)










subsection \<open>The completer\<close>

text \<open>
  C10. With no schema installed the completer returns the empty list, without an
  exception, at every cursor position and for every buffer: the result does not depend
  on the language service, which may be one that always throws.
\<close>

theorem getCompletions_without_schema:
  assumes "validationSchema st = None"
  shows "getCompletions suggest st row col = Inr []"
  using assms
  by (simp add: getCompletions_def)

theorem getCompletions_without_schema_witness:
  "validationSchema (user_edit ''{ m'' (mounted '''' :: sample_schema component)) = None
   \<and> getCompletions (\<lambda>schema t p. Inl (typeError ''the language service was called''))
       (user_edit ''{ m'' (mounted '''' :: sample_schema component)) 0 3 = Inr []"
proof -
  let ?st = "user_edit ''{ m'' (mounted '''' :: sample_schema component)"
  have none: "validationSchema ?st = None"
    by (simp add: user_edit_state mounted_state)
  from getCompletions_without_schema [OF none] none show ?thesis
    by simp
qed

end
